theory Spec2Isabelle
  imports Main "HOL-Library.Word"
begin

unbundle bit_operations_syntax

section \<open>The state RPC module of gossamer (dot/rpc/modules/state.go)\<close>

text \<open>
  The module is a set of request handlers over two consumed interfaces, the storage API
  and the core API. Each handler takes the module, a request and the response object it
  writes into, and returns an error or nil. The embedding passes the response object in
  and returns it updated, records the interface calls a handler makes in the order it
  makes them, and has a separate outcome for a Go run-time panic.
\<close>

subsection \<open>Bytes, slices, hashes, errors\<close>

type_synonym byte = "8 word"

text \<open>A Go string or the content of a byte slice.\<close>
type_synonym bytes = "byte list"

text \<open>
  A Go \<^verbatim>\<open>[]byte\<close> value where the code can tell a nil slice from an allocated one:
  \<open>None\<close> is nil, \<open>Some []\<close> is an allocated slice of length 0.
\<close>
type_synonym byte_slice = "byte list option"

text \<open>\<^verbatim>\<open>common.Hash\<close>; a \<^verbatim>\<open>*common.Hash\<close> is a \<open>Hash option\<close>, nil being \<open>None\<close>.\<close>
type_synonym Hash = "byte list"

text \<open>
  Go \<^verbatim>\<open>error\<close> values. The handlers never build an error of their own: they hand
  back what an interface call returned.
\<close>
datatype error = UnknownBlock | StorageUnavailable | RuntimeUnavailable | DecodeError | InvalidHex

definition elems :: "'a list option \<Rightarrow> 'a list" where
  "elems s = (case s of None \<Rightarrow> [] | Some xs \<Rightarrow> xs)"

definition len :: "'a list option \<Rightarrow> nat" where
  "len s = length (elems s)"

text \<open>Go's \<^verbatim>\<open>append(s, x)\<close>: the result is never nil.\<close>
definition append_slice :: "'a list option \<Rightarrow> 'a \<Rightarrow> 'a list option" where
  "append_slice s x = Some (elems s @ [x])"

subsection \<open>Hex encoding\<close>

definition hexdigit :: "nat \<Rightarrow> char" where
  "hexdigit n = ''0123456789abcdef'' ! (n mod 16)"

text \<open>Go's \<^verbatim>\<open>hex.EncodeToString\<close>: two lowercase digits per byte, high nibble first.\<close>
fun hex_EncodeToString :: "bytes \<Rightarrow> string" where
  "hex_EncodeToString [] = []"
| "hex_EncodeToString (b # bs) =
     hexdigit (unat b div 16) # hexdigit (unat b mod 16) # hex_EncodeToString bs"

text \<open>
  Modelled from the spec: \<^verbatim>\<open>common.BytesToHex\<close> (package lib/common, not among the
  sources). The spec's wire convention is a \<^verbatim>\<open>0x\<close>-prefixed lowercase hex string.
\<close>
definition BytesToHex :: "bytes \<Rightarrow> string" where
  "BytesToHex b = ''0x'' @ hex_EncodeToString b"

fun hex_val :: "char \<Rightarrow> nat option" where
  "hex_val c =
     (let n = of_char c :: nat in
      if 48 \<le> n \<and> n \<le> 57 then Some (n - 48)
      else if 97 \<le> n \<and> n \<le> 102 then Some (n - 87)
      else None)"

fun decode_hex_digits :: "string \<Rightarrow> bytes option" where
  "decode_hex_digits [] = Some []"
| "decode_hex_digits [c] = None"
| "decode_hex_digits (c # d # rest) =
     (case (hex_val c, hex_val d) of
        (Some h, Some l) \<Rightarrow>
          (case decode_hex_digits rest of
             None \<Rightarrow> None
           | Some bs \<Rightarrow> Some (of_nat (16 * h + l) # bs))
      | _ \<Rightarrow> None)"

text \<open>
  Modelled from the spec: \<^verbatim>\<open>common.HexToBytes\<close> (package lib/common, not among the
  sources). It returns bytes and an error. The spec's wire hex is a \<^verbatim>\<open>0x\<close> prefix
  followed by lowercase hex digits, two per byte, and a string that is not wire hex
  "degrades to an empty byte key": the bytes are empty and the error is set.
\<close>
definition HexToBytes :: "string \<Rightarrow> bytes \<times> error option" where
  "HexToBytes s =
     (case s of
        c0 # c1 # rest \<Rightarrow>
          (if c0 = CHR ''0'' \<and> c1 = CHR ''x'' then
             (case decode_hex_digits rest of
                Some bs \<Rightarrow> (bs, None)
              | None \<Rightarrow> ([], Some InvalidHex))
           else ([], Some InvalidHex))
      | _ \<Rightarrow> ([], Some InvalidHex))"

subsection \<open>The consumed interfaces\<close>

text \<open>
  \<^verbatim>\<open>StorageAPI\<close>, as the handlers call it. A method returning \<^verbatim>\<open>(value, error)\<close>
  is a function into \<open>error + value\<close>: every handler tests the error first and drops
  the value when it is set. \<^verbatim>\<open>Entries\<close> returns a Go map from string to bytes, here
  a map from the bytes of the key to the slice stored under it; a map has no order.
\<close>
record StorageAPI =
  GetStorage_api :: "Hash option \<Rightarrow> bytes \<Rightarrow> error + byte_slice"
  GetStorageByBlockHash_api :: "Hash \<Rightarrow> bytes \<Rightarrow> error + byte_slice"
  Entries_api :: "Hash option \<Rightarrow> error + (bytes \<rightharpoonup> byte_slice)"
  GetStateRootFromBlock_api :: "Hash \<Rightarrow> error + Hash option"

text \<open>\<^verbatim>\<open>runtime.VersionAPI\<close> and its parts, with the fields the handler reads.\<close>
record Version =
  Spec_name :: bytes
  Impl_name :: bytes
  Authoring_version :: "32 word"
  Spec_version :: "32 word"
  Impl_version :: "32 word"

record API_Item =
  Name :: bytes
  Ver :: "32 word"

record VersionAPI =
  RuntimeVersion :: Version
  API :: "API_Item list"

record CoreAPI =
  GetMetadata_core :: "Hash option \<Rightarrow> error + bytes"
  GetRuntimeVersion_core :: "Hash option \<Rightarrow> error + VersionAPI"

record StateModule =
  networkAPI :: unit
  storageAPI :: StorageAPI
  coreAPI :: CoreAPI

text \<open>
  \<^verbatim>\<open>common.BytesToHash\<close> and \<^verbatim>\<open>Hash.String\<close> are in package lib/common, which is not
  among the sources; the handlers are parameterised over them.
\<close>
record common_pkg =
  BytesToHash :: "bytes \<Rightarrow> Hash"
  Hash_String :: "Hash \<Rightarrow> string"

subsection \<open>Requests and responses\<close>

text \<open>
  \<^verbatim>\<open>StateRuntimeMetadataQuery\<close> and \<^verbatim>\<open>StateRuntimeVersionRequest\<close> have the one field
  \<^verbatim>\<open>Bhash\<close>; \<^verbatim>\<open>StateStorageRequest\<close>, \<^verbatim>\<open>StateStorageHashRequest\<close> and
  \<^verbatim>\<open>StateStorageSizeRequest\<close> have \<^verbatim>\<open>Key\<close> and \<^verbatim>\<open>Bhash\<close>. Structs with the same
  fields share a record type here.
\<close>
record StateRuntimeMetadataQuery =
  Bhash :: "Hash option"

type_synonym StateRuntimeVersionRequest = StateRuntimeMetadataQuery

record StateStorageRequest = StateRuntimeMetadataQuery +
  Key :: string

type_synonym StateStorageHashRequest = StateStorageRequest
type_synonym StateStorageSizeRequest = StateStorageRequest

record StatePairRequest = StateRuntimeMetadataQuery +
  Prefix :: string

record StateStorageResponse =
  StorageValue :: string

record StateStorageHashResponse =
  StorageHash :: string

record StateStorageSizeResponse =
  StorageEntrySize :: "64 word"

text \<open>
  \<^verbatim>\<open>keys []interface{}\<close>: the handler appends values of type \<^verbatim>\<open>[]string\<close>, here
  string lists. The field is nil in the zero value.
\<close>
record StatePairResponse =
  keys :: "string list list option"

record StateMetadataResponse =
  Metadata :: string

record StateRuntimeVersionResponse =
  SpecName :: bytes
  ImplName :: bytes
  AuthoringVersion :: "32 word"
  SpecVersion :: "32 word"
  ImplVersion :: "32 word"
  Apis :: "(string \<times> 32 word) list option"

subsection \<open>Outcomes\<close>

text \<open>The calls a handler makes on the two interfaces, with their arguments.\<close>
datatype call =
    GetStateRootFromBlockCall Hash
  | EntriesCall "Hash option"
  | GetStorageCall "Hash option" bytes
  | GetStorageByBlockHashCall Hash bytes
  | GetMetadataCall "Hash option"
  | GetRuntimeVersionCall "Hash option"

text \<open>
  A handler either returns, with the error it returns (\<open>None\<close> is nil) and the response
  object as it then is, or it panics. Both carry the interface calls made so far.
\<close>
datatype 'r outcome =
    Return (calls: "call list") (err: "error option") (response: 'r)
  | Panic (calls: "call list")

subsection \<open>Storage reads\<close>

definition GetStorage ::
  "StateModule \<Rightarrow> StateStorageRequest \<Rightarrow> StateStorageResponse \<Rightarrow> StateStorageResponse outcome" where
  "GetStorage sm req res =
     (let reqBytes = fst (HexToBytes (Key req)) in
      case Bhash req of
        Some bh \<Rightarrow>
          (case GetStorageByBlockHash_api (storageAPI sm) bh reqBytes of
             Inl e \<Rightarrow> Return [GetStorageByBlockHashCall bh reqBytes] (Some e) res
           | Inr item \<Rightarrow>
               Return [GetStorageByBlockHashCall bh reqBytes] None
                 (if len item > 0 then res\<lparr>StorageValue := BytesToHex (elems item)\<rparr>
                  else \<lparr>StorageValue = []\<rparr>))
      | None \<Rightarrow>
          (case GetStorage_api (storageAPI sm) None reqBytes of
             Inl e \<Rightarrow> Return [GetStorageCall None reqBytes] (Some e) res
           | Inr item \<Rightarrow>
               Return [GetStorageCall None reqBytes] None
                 (if len item > 0 then res\<lparr>StorageValue := BytesToHex (elems item)\<rparr>
                  else \<lparr>StorageValue = []\<rparr>)))"

definition GetStorageHash ::
  "common_pkg \<Rightarrow> StateModule \<Rightarrow> StateStorageHashRequest \<Rightarrow> StateStorageHashResponse
     \<Rightarrow> StateStorageHashResponse outcome" where
  "GetStorageHash common sm req res =
     (let reqBytes = fst (HexToBytes (Key req)) in
      case Bhash req of
        Some bh \<Rightarrow>
          (case GetStorageByBlockHash_api (storageAPI sm) bh reqBytes of
             Inl e \<Rightarrow> Return [GetStorageByBlockHashCall bh reqBytes] (Some e) res
           | Inr item \<Rightarrow>
               Return [GetStorageByBlockHashCall bh reqBytes] None
                 (if len item > 0
                  then res\<lparr>StorageHash := Hash_String common (BytesToHash common (elems item))\<rparr>
                  else \<lparr>StorageHash = []\<rparr>))
      | None \<Rightarrow>
          (case GetStorage_api (storageAPI sm) None reqBytes of
             Inl e \<Rightarrow> Return [GetStorageCall None reqBytes] (Some e) res
           | Inr item \<Rightarrow>
               Return [GetStorageCall None reqBytes] None
                 (if len item > 0
                  then res\<lparr>StorageHash := Hash_String common (BytesToHash common (elems item))\<rparr>
                  else \<lparr>StorageHash = []\<rparr>)))"

definition GetStorageSize ::
  "StateModule \<Rightarrow> StateStorageSizeRequest \<Rightarrow> StateStorageSizeResponse
     \<Rightarrow> StateStorageSizeResponse outcome" where
  "GetStorageSize sm req res =
     (let reqBytes = fst (HexToBytes (Key req)) in
      case Bhash req of
        Some bh \<Rightarrow>
          (case GetStorageByBlockHash_api (storageAPI sm) bh reqBytes of
             Inl e \<Rightarrow> Return [GetStorageByBlockHashCall bh reqBytes] (Some e) res
           | Inr item \<Rightarrow>
               Return [GetStorageByBlockHashCall bh reqBytes] None
                 (if len item > 0 then \<lparr>StorageEntrySize = of_nat (len item)\<rparr>
                  else \<lparr>StorageEntrySize = 0\<rparr>))
      | None \<Rightarrow>
          (case GetStorage_api (storageAPI sm) None reqBytes of
             Inl e \<Rightarrow> Return [GetStorageCall None reqBytes] (Some e) res
           | Inr item \<Rightarrow>
               Return [GetStorageCall None reqBytes] None
                 (if len item > 0 then \<lparr>StorageEntrySize = of_nat (len item)\<rparr>
                  else \<lparr>StorageEntrySize = 0\<rparr>)))"

text \<open>
  What the storage API answers to the one lookup a storage read makes: by block hash
  when the request carries one, on the latest state otherwise.
\<close>
definition provider_answer :: "StateModule \<Rightarrow> Hash option \<Rightarrow> bytes \<Rightarrow> error + byte_slice" where
  "provider_answer sm bhash k =
     (case bhash of
        Some bh \<Rightarrow> GetStorageByBlockHash_api (storageAPI sm) bh k
      | None \<Rightarrow> GetStorage_api (storageAPI sm) None k)"

text \<open>The call by which a storage read obtains that answer.\<close>
definition lookup_call :: "Hash option \<Rightarrow> bytes \<Rightarrow> call" where
  "lookup_call bhash k =
     (case bhash of
        Some bh \<Rightarrow> GetStorageByBlockHashCall bh k
      | None \<Rightarrow> GetStorageCall None k)"

text \<open>The calls to the block resolver, \<^verbatim>\<open>GetStateRootFromBlock\<close>.\<close>
fun is_resolver_call :: "call \<Rightarrow> bool" where
  "is_resolver_call (GetStateRootFromBlockCall bh) = True"
| "is_resolver_call c = False"

subsection \<open>Prefix enumeration\<close>

text \<open>
  Go's \<^verbatim>\<open>range\<close> over a map visits every entry once, in an order that the language
  leaves open and that changes from one loop to the next over the same map. The order is
  therefore an input of the handler: a function that gives, for the map ranged over, its
  entries in the order in which this loop visits them.
\<close>
type_synonym map_range = "(bytes \<rightharpoonup> byte_slice) \<Rightarrow> (bytes \<times> byte_slice) list"

text \<open>What any such visit of the map \<open>m\<close> satisfies: each key once, with the value under it.\<close>
definition visits_each_once :: "(bytes \<times> byte_slice) list \<Rightarrow> (bytes \<rightharpoonup> byte_slice) \<Rightarrow> bool" where
  "visits_each_once es m \<longleftrightarrow> distinct (map fst es) \<and> map_of es = m"

text \<open>
  The body of the loop \<^verbatim>\<open>for k, v := range pairs\<close> of GetPairs, run over the entries as
  visited: one append to \<^verbatim>\<open>res.keys\<close> per entry.
\<close>
fun range_pairs :: "(bytes \<times> byte_slice) list \<Rightarrow> StatePairResponse \<Rightarrow> StatePairResponse" where
  "range_pairs [] res = res"
| "range_pairs ((k, v) # pairs) res =
     range_pairs pairs
       (res\<lparr>keys := append_slice (keys res)
          [''0x'' @ hex_EncodeToString k, ''0x'' @ hex_EncodeToString (elems v)]\<rparr>)"

definition GetPairs ::
  "map_range \<Rightarrow> StateModule \<Rightarrow> StatePairRequest \<Rightarrow> StatePairResponse
     \<Rightarrow> StatePairResponse outcome" where
  "GetPairs rng sm req res =
     (let reqBytes = fst (HexToBytes (Prefix req)) in
      case (case Bhash req of
              Some bh \<Rightarrow> ([GetStateRootFromBlockCall bh], GetStateRootFromBlock_api (storageAPI sm) bh)
            | None \<Rightarrow> ([], Inr None)) of
        (cs, Inl e) \<Rightarrow> Return cs (Some e) res
      | (cs, Inr stateRootHash) \<Rightarrow>
          if length reqBytes < 1 then
            (case Entries_api (storageAPI sm) stateRootHash of
               Inl e \<Rightarrow> Return (cs @ [EntriesCall stateRootHash]) (Some e) res
             | Inr pairs \<Rightarrow> Return (cs @ [EntriesCall stateRootHash]) None (range_pairs (rng pairs) res))
          else
            (case GetStorage_api (storageAPI sm) stateRootHash reqBytes of
               Inl e \<Rightarrow> Return (cs @ [GetStorageCall stateRootHash reqBytes]) (Some e) res
             | Inr resI \<Rightarrow>
                 Return (cs @ [GetStorageCall stateRootHash reqBytes]) None
                   (case resI of
                      Some v \<Rightarrow>
                        res\<lparr>keys := append_slice (keys res)
                          [''0x'' @ hex_EncodeToString reqBytes, ''0x'' @ hex_EncodeToString v]\<rparr>
                    | None \<Rightarrow> res\<lparr>keys := Some []\<rparr>)))"

text \<open>
  The snapshot GetPairs reads at: nil without a block hash, else what
  \<^verbatim>\<open>GetStateRootFromBlock\<close> answers.
\<close>
definition resolved_root :: "StateModule \<Rightarrow> Hash option \<Rightarrow> error + Hash option" where
  "resolved_root sm bhash =
     (case bhash of
        Some bh \<Rightarrow> GetStateRootFromBlock_api (storageAPI sm) bh
      | None \<Rightarrow> Inr None)"

subsection \<open>Handlers without a body\<close>

text \<open>
  Call, GetChildKeys, GetChildStorage, GetChildStorageHash, GetChildStorageSize and
  GetKeys have no result and an empty body (Call reads two fields of the module and
  drops them). QueryStorage and SubscribeStorage return nil. None of them reads its
  request or touches its response, so both are left polymorphic.
\<close>
definition Call :: "StateModule \<Rightarrow> 'req \<Rightarrow> 'res \<Rightarrow> call list \<times> 'res" where
  "Call sm req res = ([], res)"

definition GetChildKeys :: "StateModule \<Rightarrow> 'req \<Rightarrow> 'res \<Rightarrow> call list \<times> 'res" where
  "GetChildKeys sm req res = ([], res)"

definition GetChildStorage :: "StateModule \<Rightarrow> 'req \<Rightarrow> 'res \<Rightarrow> call list \<times> 'res" where
  "GetChildStorage sm req res = ([], res)"

definition GetChildStorageHash :: "StateModule \<Rightarrow> 'req \<Rightarrow> 'res \<Rightarrow> call list \<times> 'res" where
  "GetChildStorageHash sm req res = ([], res)"

definition GetChildStorageSize :: "StateModule \<Rightarrow> 'req \<Rightarrow> 'res \<Rightarrow> call list \<times> 'res" where
  "GetChildStorageSize sm req res = ([], res)"

definition GetKeys :: "StateModule \<Rightarrow> 'req \<Rightarrow> 'res \<Rightarrow> call list \<times> 'res" where
  "GetKeys sm req res = ([], res)"

definition QueryStorage :: "StateModule \<Rightarrow> 'req \<Rightarrow> 'res \<Rightarrow> 'res outcome" where
  "QueryStorage sm req res = Return [] None res"

definition SubscribeStorage :: "StateModule \<Rightarrow> 'req \<Rightarrow> 'res \<Rightarrow> 'res outcome" where
  "SubscribeStorage sm req res = Return [] None res"

text \<open>The request and response structs of QueryStorage and SubscribeStorage.\<close>
record StateStorageQueryRangeRequest =
  Keys :: "Hash option list option"
  StartBlock :: "Hash option"
  Block :: "Hash option"

record KeyValueOption =
  StorageKey :: byte_slice
  StorageData :: byte_slice

datatype StorageChangeSetResponse =
  StorageChangeSetResponse "Hash option" "KeyValueOption list option"

subsection \<open>Metadata\<close>

text \<open>
  The dynamic value of an \<^verbatim>\<open>interface{}\<close>, as far as the type assertion
  \<^verbatim>\<open>decoded.([]byte)\<close> tells values apart: the nil interface, a byte slice (nil or
  not), anything else. The assertion panics on all but a byte slice.
\<close>
datatype iface = NilInterface | ByteSlice byte_slice | OtherValue

fun le_nat :: "bytes \<Rightarrow> nat" where
  "le_nat [] = 0"
| "le_nat (b # bs) = unat b + 256 * le_nat bs"

text \<open>
  Modelled from the spec: the length prefix of the SCALE byte-sequence encoding (package
  lib/scale, not among the sources), a compact integer. The two low bits of the first
  byte select the width: one, two or four bytes holding the length shifted left by two,
  little-endian, or a count of further bytes holding the length itself.
\<close>
definition decode_compact_length :: "bytes \<Rightarrow> (nat \<times> bytes) option" where
  "decode_compact_length inp =
     (case inp of
        [] \<Rightarrow> None
      | b # rest \<Rightarrow>
          (let mode = unat b mod 4 in
           if mode = 0 then Some (unat b div 4, rest)
           else if mode = 1 then
             (if length rest < 1 then None
              else Some (le_nat (b # take 1 rest) div 4, drop 1 rest))
           else if mode = 2 then
             (if length rest < 3 then None
              else Some (le_nat (b # take 3 rest) div 4, drop 3 rest))
           else
             (let n = unat b div 4 + 4 in
              if length rest < n then None
              else Some (le_nat (take n rest), drop n rest))))"

text \<open>
  Modelled from the spec: \<^verbatim>\<open>scale.Decode(metadata, []byte{})\<close> (package lib/scale, not
  among the sources), "a length-prefixed byte-sequence decode step" whose failure is a
  decode error. The target type is a byte slice, and the result is taken to be of that
  type on every path: the decoded bytes, or the nil slice together with the error.
\<close>
definition scale_Decode :: "bytes \<Rightarrow> iface \<times> error option" where
  "scale_Decode inp =
     (case decode_compact_length inp of
        None \<Rightarrow> (ByteSlice None, Some DecodeError)
      | Some (n, rest) \<Rightarrow>
          if length rest < n then (ByteSlice None, Some DecodeError)
          else (ByteSlice (Some (take n rest)), None))"

definition GetMetadata ::
  "StateModule \<Rightarrow> StateRuntimeMetadataQuery \<Rightarrow> StateMetadataResponse
     \<Rightarrow> StateMetadataResponse outcome" where
  "GetMetadata sm req res =
     (case GetMetadata_core (coreAPI sm) (Bhash req) of
        Inl e \<Rightarrow> Return [GetMetadataCall (Bhash req)] (Some e) res
      | Inr metadata \<Rightarrow>
          (case scale_Decode metadata of
             (decoded, e) \<Rightarrow>
               (case decoded of
                  ByteSlice b \<Rightarrow>
                    Return [GetMetadataCall (Bhash req)] e (res\<lparr>Metadata := BytesToHex (elems b)\<rparr>)
                | _ \<Rightarrow> Panic [GetMetadataCall (Bhash req)])))"

subsection \<open>Runtime version\<close>

text \<open>The loop of convertAPIs, appending to \<^verbatim>\<open>ret\<close>.\<close>
fun convertAPIs_loop :: "API_Item list \<Rightarrow> (string \<times> 32 word) list \<Rightarrow> (string \<times> 32 word) list" where
  "convertAPIs_loop [] ret = ret"
| "convertAPIs_loop (item # items) ret =
     convertAPIs_loop items (ret @ [(''0x'' @ hex_EncodeToString (Name item), Ver item)])"

definition convertAPIs :: "API_Item list \<Rightarrow> (string \<times> 32 word) list option" where
  "convertAPIs inp = Some (convertAPIs_loop inp [])"

text \<open>
  The request is a pointer, and SubscribeRuntimeVersion passes nil for it, so it is an
  option here: reading \<^verbatim>\<open>req.Bhash\<close> through a nil pointer panics before anything else
  happens.
\<close>
definition GetRuntimeVersion ::
  "StateModule \<Rightarrow> StateRuntimeVersionRequest option \<Rightarrow> StateRuntimeVersionResponse
     \<Rightarrow> StateRuntimeVersionResponse outcome" where
  "GetRuntimeVersion sm req res =
     (case req of
        None \<Rightarrow> Panic []
      | Some rq \<Rightarrow>
          (case GetRuntimeVersion_core (coreAPI sm) (Bhash rq) of
             Inl e \<Rightarrow> Return [GetRuntimeVersionCall (Bhash rq)] (Some e) res
           | Inr rtVersion \<Rightarrow>
               Return [GetRuntimeVersionCall (Bhash rq)] None
                 (res\<lparr>SpecName := Spec_name (RuntimeVersion rtVersion),
                      ImplName := Impl_name (RuntimeVersion rtVersion),
                      AuthoringVersion := Authoring_version (RuntimeVersion rtVersion),
                      SpecVersion := Spec_version (RuntimeVersion rtVersion),
                      ImplVersion := Impl_version (RuntimeVersion rtVersion),
                      Apis := convertAPIs (API rtVersion)\<rparr>)))"

definition SubscribeRuntimeVersion ::
  "StateModule \<Rightarrow> 'req \<Rightarrow> StateRuntimeVersionResponse \<Rightarrow> StateRuntimeVersionResponse outcome" where
  "SubscribeRuntimeVersion sm req res = GetRuntimeVersion sm None res"

subsection \<open>A small store to run the handlers on\<close>

text \<open>
  Key 01 holds five bytes, key 02 holds an empty value, a lookup of key ff fails, every
  other key is absent. Block aa is the one block the store knows.
\<close>
definition sample_entries :: "(bytes \<times> byte_slice) list" where
  "sample_entries = [([0x01], Some [1, 2, 3, 4, 5]), ([0x02], Some [])]"

definition sample_storage :: StorageAPI where
  "sample_storage =
     \<lparr>GetStorage_api = (\<lambda>root k.
         if k = [0x01] then Inr (Some [1, 2, 3, 4, 5])
         else if k = [0x02] then Inr (Some [])
         else if k = [0xff] then Inl StorageUnavailable
         else Inr None),
      GetStorageByBlockHash_api = (\<lambda>bh k.
         if bh = [0xaa] then (if k = [0x01] then Inr (Some [1, 2, 3, 4, 5]) else Inr None)
         else Inl UnknownBlock),
      Entries_api = (\<lambda>root. Inr (map_of sample_entries)),
      GetStateRootFromBlock_api = (\<lambda>bh. if bh = [0xaa] then Inr (Some [0xbb]) else Inl UnknownBlock)\<rparr>"

definition sample_version :: VersionAPI where
  "sample_version =
     \<lparr>RuntimeVersion = \<lparr>Spec_name = [0x6e], Impl_name = [0x67], Authoring_version = 1,
                        Spec_version = 2, Impl_version = 3\<rparr>,
      API = [\<lparr>Name = [0xdf, 0x6a], Ver = 2\<rparr>, \<lparr>Name = [0x37], Ver = 1\<rparr>]\<rparr>"

text \<open>
  A core API that answers by block: the latest runtime has two API entries, the runtime
  at any block asked for by hash has none, and block 00 makes it fail. The latest
  metadata blob decodes to two bytes; the blob at a block announces three bytes and
  holds one.
\<close>
definition sample_core :: CoreAPI where
  "sample_core =
     \<lparr>GetMetadata_core = (\<lambda>bh.
         if bh = None then Inr [0x08, 0xab, 0xcd]
         else if bh = Some [0x00] then Inl RuntimeUnavailable
         else Inr [0x0c, 0x01]),
      GetRuntimeVersion_core = (\<lambda>bh.
         if bh = None then Inr sample_version
         else if bh = Some [0x00] then Inl RuntimeUnavailable
         else Inr (sample_version\<lparr>API := []\<rparr>))\<rparr>"

definition sample_module :: StateModule where
  "sample_module = \<lparr>networkAPI = (), storageAPI = sample_storage, coreAPI = sample_core\<rparr>"

text \<open>The same store behind a core API that never fails.\<close>
definition steady_core :: CoreAPI where
  "steady_core =
     \<lparr>GetMetadata_core = (\<lambda>bh. Inr [0x08, 0xab, 0xcd]),
      GetRuntimeVersion_core = (\<lambda>bh. Inr sample_version)\<rparr>"

definition steady_module :: StateModule where
  "steady_module = \<lparr>networkAPI = (), storageAPI = sample_storage, coreAPI = steady_core\<rparr>"

text \<open>A range that visits the keys of the map in the order of the list \<open>ks\<close>.\<close>
definition range_keys :: "bytes list \<Rightarrow> map_range" where
  "range_keys ks m = List.map_filter (\<lambda>k. map_option (Pair k) (m k)) ks"

text \<open>
  Stand-ins for the two functions of lib/common, to have something to run GetStorageHash
  with.
\<close>
definition sample_common :: common_pkg where
  "sample_common = \<lparr>BytesToHash = (\<lambda>b. b), Hash_String = BytesToHex\<rparr>"

definition sample_query :: StateStorageQueryRangeRequest where
  "sample_query = \<lparr>Keys = None, StartBlock = None, Block = None\<rparr>"

text \<open>The zero value of the runtime version response.\<close>
definition zero_version :: StateRuntimeVersionResponse where
  "zero_version =
     \<lparr>SpecName = [], ImplName = [], AuthoringVersion = 0, SpecVersion = 0, ImplVersion = 0,
      Apis = None\<rparr>"

section \<open>Properties\<close>

lemma len_None [simp]: "len None = 0"
  by (simp add: len_def elems_def)

lemma len_Some [simp]: "len (Some xs) = length xs"
  by (simp add: len_def elems_def)

lemma elems_simps [simp]: "elems None = []" "elems (Some xs) = xs"
  by (simp_all add: elems_def)

lemma HexToBytes_0x: "HexToBytes ''0x'' = ([], None)"
  by (simp add: HexToBytes_def)

lemma HexToBytes_01: "HexToBytes ''0x01'' = ([0x01], None)"
  by (simp add: HexToBytes_def)



lemma HexToBytes_error_empty: "snd (HexToBytes s) \<noteq> None \<Longrightarrow> fst (HexToBytes s) = []"
  by (auto simp: HexToBytes_def split: list.splits option.splits if_splits)

lemma range_pairs_elems:
  "elems (keys (range_pairs pairs res)) =
     elems (keys res) @
       map (\<lambda>(k, v). [''0x'' @ hex_EncodeToString k, ''0x'' @ hex_EncodeToString (elems v)]) pairs"
  by (induction pairs arbitrary: res) (auto simp: append_slice_def)

lemma convertAPIs_loop_map:
  "convertAPIs_loop items ret =
     ret @ map (\<lambda>item. (''0x'' @ hex_EncodeToString (Name item), Ver item)) items"
  by (induction items arbitrary: ret) auto

lemma GetRuntimeVersion_answer:
  "GetRuntimeVersion_core (coreAPI sm) (Bhash r) = Inr rt \<Longrightarrow>
   GetRuntimeVersion sm (Some r) res =
     Return [GetRuntimeVersionCall (Bhash r)] None
       \<lparr>SpecName = Spec_name (RuntimeVersion rt), ImplName = Impl_name (RuntimeVersion rt),
        AuthoringVersion = Authoring_version (RuntimeVersion rt),
        SpecVersion = Spec_version (RuntimeVersion rt),
        ImplVersion = Impl_version (RuntimeVersion rt),
        Apis = Some (map (\<lambda>item. (''0x'' @ hex_EncodeToString (Name item), Ver item)) (API rt))\<rparr>"
  by (cases res) (simp add: GetRuntimeVersion_def convertAPIs_def convertAPIs_loop_map)

lemma scale_Decode_ByteSlice: "\<exists>b. fst (scale_Decode blob) = ByteSlice b"
  by (auto simp: scale_Decode_def split: option.splits)

lemma scale_Decode_sample_ok: "scale_Decode [0x08, 0xab, 0xcd] = (ByteSlice (Some [0xab, 0xcd]), None)"
  by (simp add: scale_Decode_def decode_compact_length_def)

lemma scale_Decode_sample_short: "scale_Decode [0x0c, 0x01] = (ByteSlice None, Some DecodeError)"
  by (simp add: scale_Decode_def decode_compact_length_def)

lemma hexdigit_inj: "m < 16 \<Longrightarrow> n < 16 \<Longrightarrow> hexdigit m = hexdigit n \<Longrightarrow> m = n"
proof -
  assume m: "m < 16" and n: "n < 16" and e: "hexdigit m = hexdigit n"
  have d: "distinct ''0123456789abcdef''" by simp
  have l: "length ''0123456789abcdef'' = 16" by simp
  from e m n have "''0123456789abcdef'' ! m = ''0123456789abcdef'' ! n"
    by (simp add: hexdigit_def)
  with d l m n show "m = n"
    by (metis nth_eq_iff_index_eq)
qed

lemma byte_digits_inj:
  fixes a b :: byte
  assumes "hexdigit (unat a div 16) = hexdigit (unat b div 16)"
    and "hexdigit (unat a mod 16) = hexdigit (unat b mod 16)"
  shows "a = b"
proof -
  have ua: "unat a < 256" using unsigned_less [of a, where ?'a = nat] by simp
  have ub: "unat b < 256" using unsigned_less [of b, where ?'a = nat] by simp
  from ua ub have "unat a div 16 < 16" "unat b div 16 < 16" by simp_all
  with assms(1) have h: "unat a div 16 = unat b div 16" by (rule hexdigit_inj [rotated 2])
  have "unat a mod 16 < 16" "unat b mod 16 < 16" by simp_all
  with assms(2) have l: "unat a mod 16 = unat b mod 16" by (rule hexdigit_inj [rotated 2])
  from h l have "unat a = unat b" by (metis div_mult_mod_eq)
  then show ?thesis by (rule unsigned_word_eqI)
qed

lemma hex_EncodeToString_inj: "hex_EncodeToString xs = hex_EncodeToString ys \<Longrightarrow> xs = ys"
proof (induction xs arbitrary: ys)
  case Nil
  then show ?case by (cases ys) simp_all
next
  case (Cons x xs)
  then show ?case by (cases ys) (auto dest: byte_digits_inj)
qed

lemma pair_entry_inj:
  "[''0x'' @ hex_EncodeToString k, ''0x'' @ hex_EncodeToString v] =
   [''0x'' @ hex_EncodeToString k', ''0x'' @ hex_EncodeToString v'] \<Longrightarrow> k = k' \<and> v = v'"
  by (auto dest: hex_EncodeToString_inj)

lemma count_list_one_distinct_keys:
  "distinct (map fst es) \<Longrightarrow> (k, v) \<in> set es \<Longrightarrow>
   count_list (map (\<lambda>(k, v). [''0x'' @ hex_EncodeToString k, ''0x'' @ hex_EncodeToString (elems v)]) es)
     [''0x'' @ hex_EncodeToString k, ''0x'' @ hex_EncodeToString (elems v)] = 1"
proof (induction es)
  case Nil
  then show ?case by simp
next
  case (Cons e es)
  obtain k' v' where e: "e = (k', v')" by (cases e)
  show ?case
  proof (cases "k' = k")
    case True
    with Cons.prems e have v: "v' = v"
      by (auto simp: image_iff)
    from Cons.prems e True have "k \<notin> fst ` set es" by simp
    then have "count_list (map (\<lambda>(k, v). [''0x'' @ hex_EncodeToString k, ''0x'' @ hex_EncodeToString (elems v)]) es)
      [''0x'' @ hex_EncodeToString k, ''0x'' @ hex_EncodeToString (elems v)] = 0"
      by (auto simp: count_list_0_iff image_iff dest!: hex_EncodeToString_inj)
    with e True v show ?thesis by simp
  next
    case False
    with Cons.prems e have "(k, v) \<in> set es" "distinct (map fst es)" by auto
    with Cons.IH have "count_list (map (\<lambda>(k, v). [''0x'' @ hex_EncodeToString k, ''0x'' @ hex_EncodeToString (elems v)]) es)
      [''0x'' @ hex_EncodeToString k, ''0x'' @ hex_EncodeToString (elems v)] = 1" by simp
    with e False show ?thesis by (auto dest: hex_EncodeToString_inj)
  qed
qed

lemma sample_forward: "range_keys [[0x01], [0x02]] (map_of sample_entries) = sample_entries"
  by (simp add: range_keys_def sample_entries_def List.map_filter_simps)

lemma sample_backward: "range_keys [[0x02], [0x01]] (map_of sample_entries) = rev sample_entries"
  by (simp add: range_keys_def sample_entries_def List.map_filter_simps)

lemma sample_forward_visits:
  "visits_each_once (range_keys [[0x01], [0x02]] (map_of sample_entries)) (map_of sample_entries)"
  by (simp add: sample_forward visits_each_once_def) (simp add: sample_entries_def)

lemma sample_backward_visits:
  "visits_each_once (range_keys [[0x02], [0x01]] (map_of sample_entries)) (map_of sample_entries)"
  by (simp add: sample_backward visits_each_once_def) (auto simp: sample_entries_def fun_eq_iff)

text \<open>
  C1. When the storage API answers a lookup with no bytes and no error, which is how an
  absent key shows, each of GetStorage, GetStorageHash and GetStorageSize returns a nil
  error and sets the response to its zero value: the empty StorageValue, the empty
  StorageHash, StorageEntrySize 0. This holds with and without a block hash in the
  request, and whatever the response object held before.
\<close>
theorem absent_key_zero_value:
  assumes "provider_answer sm (Bhash req) (fst (HexToBytes (Key req))) = Inr None"
  shows "(\<exists>cs. GetStorage sm req resA = Return cs None \<lparr>StorageValue = []\<rparr>)
       \<and> (\<exists>cs. GetStorageHash common sm req resH = Return cs None \<lparr>StorageHash = []\<rparr>)
       \<and> (\<exists>cs. GetStorageSize sm req resS = Return cs None \<lparr>StorageEntrySize = 0\<rparr>)"
  using assms
  by (cases "Bhash req")
     (simp_all add: provider_answer_def GetStorage_def GetStorageHash_def GetStorageSize_def Let_def)

theorem absent_key_zero_value_witness:
  "provider_answer sample_module None (fst (HexToBytes ''0xdeadbeef'')) = Inr None
   \<and> (\<exists>cs. GetStorage sample_module \<lparr>Bhash = None, Key = ''0xdeadbeef''\<rparr> \<lparr>StorageValue = ''0x00''\<rparr>
          = Return cs None \<lparr>StorageValue = []\<rparr>)"
proof -
  have h: "provider_answer sample_module (Bhash \<lparr>Bhash = None, Key = ''0xdeadbeef''\<rparr>)
             (fst (HexToBytes (Key \<lparr>Bhash = None, Key = ''0xdeadbeef''\<rparr>))) = Inr None"
    by (simp add: provider_answer_def sample_module_def sample_storage_def HexToBytes_def)
  from absent_key_zero_value [OF h] h show ?thesis by simp
qed

text \<open>
  C2, as the code has it. GetPairs is the one handler that asks the resolver
  (\<^verbatim>\<open>GetStateRootFromBlock\<close>): with a block hash in the request its first call is to
  the resolver, on any module, and when the resolver fails GetPairs returns that error,
  has made no other call, and leaves the response as it was. GetStorage, GetStorageHash
  and GetStorageSize never ask the resolver, on any module, request and path: with a
  block hash they make the lookup by block hash at once, and if that lookup fails they
  return its error and leave the response as it was. GetMetadata and GetRuntimeVersion
  never ask the resolver either; they hand the block hash to the core API and return its
  error with the response untouched. Each of the four failures is taken on a module of
  its own.
\<close>
theorem resolution_failure_propagates:
  assumes "Bhash preq = Some bh"
    and "GetStateRootFromBlock_api (storageAPI smP) bh = Inl e"
    and "Bhash req = Some bh'"
    and "GetStorageByBlockHash_api (storageAPI smS) bh' (fst (HexToBytes (Key req))) = Inl e'"
    and "GetMetadata_core (coreAPI smM) (Bhash mreq) = Inl e''"
    and "GetRuntimeVersion_core (coreAPI smV) (Bhash vreq) = Inl e'''"
  shows "GetPairs rng smP preq resP = Return [GetStateRootFromBlockCall bh] (Some e) resP
       \<and> take 1 (calls (GetPairs rng' sm' preq resP')) = [GetStateRootFromBlockCall bh]
       \<and> GetStorage smS req resA =
           Return [GetStorageByBlockHashCall bh' (fst (HexToBytes (Key req)))] (Some e') resA
       \<and> GetStorageHash common smS req resH =
           Return [GetStorageByBlockHashCall bh' (fst (HexToBytes (Key req)))] (Some e') resH
       \<and> GetStorageSize smS req resS =
           Return [GetStorageByBlockHashCall bh' (fst (HexToBytes (Key req)))] (Some e') resS
       \<and> GetMetadata smM mreq resM = Return [GetMetadataCall (Bhash mreq)] (Some e'') resM
       \<and> GetRuntimeVersion smV (Some vreq) resV =
           Return [GetRuntimeVersionCall (Bhash vreq)] (Some e''') resV
       \<and> filter is_resolver_call (calls (GetStorage sm' req' resA')) = []
       \<and> filter is_resolver_call (calls (GetStorageHash common sm' req' resH')) = []
       \<and> filter is_resolver_call (calls (GetStorageSize sm' req' resS')) = []
       \<and> filter is_resolver_call (calls (GetMetadata sm' mreq' resM')) = []
       \<and> filter is_resolver_call (calls (GetRuntimeVersion sm' vreq' resV')) = []"
proof -
  have p: "GetPairs rng smP preq resP = Return [GetStateRootFromBlockCall bh] (Some e) resP"
    using assms(1,2) by (simp add: GetPairs_def Let_def)
  have q: "take 1 (calls (GetPairs rng' sm' preq resP')) = [GetStateRootFromBlockCall bh]"
    using assms(1) by (simp add: GetPairs_def Let_def split: sum.splits)
  have s: "GetStorage smS req resA =
           Return [GetStorageByBlockHashCall bh' (fst (HexToBytes (Key req)))] (Some e') resA
       \<and> GetStorageHash common smS req resH =
           Return [GetStorageByBlockHashCall bh' (fst (HexToBytes (Key req)))] (Some e') resH
       \<and> GetStorageSize smS req resS =
           Return [GetStorageByBlockHashCall bh' (fst (HexToBytes (Key req)))] (Some e') resS"
    using assms(3,4) by (simp add: GetStorage_def GetStorageHash_def GetStorageSize_def Let_def)
  have m: "GetMetadata smM mreq resM = Return [GetMetadataCall (Bhash mreq)] (Some e'') resM"
    using assms(5) by (simp add: GetMetadata_def)
  have v: "GetRuntimeVersion smV (Some vreq) resV =
           Return [GetRuntimeVersionCall (Bhash vreq)] (Some e''') resV"
    using assms(6) by (simp add: GetRuntimeVersion_def)
  have n1: "filter is_resolver_call (calls (GetStorage sm' req' resA')) = []"
    by (simp add: GetStorage_def Let_def split: option.splits sum.splits)
  have n2: "filter is_resolver_call (calls (GetStorageHash common sm' req' resH')) = []"
    by (simp add: GetStorageHash_def Let_def split: option.splits sum.splits)
  have n3: "filter is_resolver_call (calls (GetStorageSize sm' req' resS')) = []"
    by (simp add: GetStorageSize_def Let_def split: option.splits sum.splits)
  have n4: "filter is_resolver_call (calls (GetMetadata sm' mreq' resM')) = []"
    by (simp add: GetMetadata_def split: sum.splits prod.splits iface.splits)
  have n5: "filter is_resolver_call (calls (GetRuntimeVersion sm' vreq' resV')) = []"
    by (simp add: GetRuntimeVersion_def split: option.splits sum.splits)
  from p q s m v n1 n2 n3 n4 n5 show ?thesis by simp
qed

theorem resolution_failure_propagates_witness:
  "GetPairs (range_keys [[0x01], [0x02]]) steady_module \<lparr>Bhash = Some [0x00], Prefix = ''0x01''\<rparr>
     \<lparr>keys = None\<rparr> =
     Return [GetStateRootFromBlockCall [0x00]] (Some UnknownBlock) \<lparr>keys = None\<rparr>
   \<and> GetStorage sample_module \<lparr>Bhash = Some [0x00], Key = ''0x01''\<rparr> \<lparr>StorageValue = ''0x07''\<rparr> =
     Return [GetStorageByBlockHashCall [0x00] [0x01]] (Some UnknownBlock) \<lparr>StorageValue = ''0x07''\<rparr>
   \<and> GetMetadata sample_module \<lparr>Bhash = Some [0x00]\<rparr> \<lparr>Metadata = ''0x07''\<rparr> =
     Return [GetMetadataCall (Some [0x00])] (Some RuntimeUnavailable) \<lparr>Metadata = ''0x07''\<rparr>
   \<and> GetRuntimeVersion sample_module (Some \<lparr>Bhash = Some [0x00]\<rparr>) zero_version =
     Return [GetRuntimeVersionCall (Some [0x00])] (Some RuntimeUnavailable) zero_version
   \<and> filter is_resolver_call
         (calls (GetStorage steady_module \<lparr>Bhash = Some [0xaa], Key = ''0x01''\<rparr> \<lparr>StorageValue = []\<rparr>)) = []"
proof -
  have h1: "Bhash \<lparr>Bhash = Some [0x00::byte], Prefix = ''0x01''\<rparr> = Some [0x00]" by simp
  have h2: "GetStateRootFromBlock_api (storageAPI steady_module) [0x00] = Inl UnknownBlock"
    by (simp add: steady_module_def sample_storage_def)
  have h3: "Bhash \<lparr>Bhash = Some [0x00::byte], Key = ''0x01''\<rparr> = Some [0x00]" by simp
  have h4: "GetStorageByBlockHash_api (storageAPI sample_module) [0x00]
              (fst (HexToBytes (Key \<lparr>Bhash = Some [0x00::byte], Key = ''0x01''\<rparr>))) = Inl UnknownBlock"
    by (simp add: sample_module_def sample_storage_def)
  have h5: "GetMetadata_core (coreAPI sample_module) (Bhash \<lparr>Bhash = Some [0x00::byte]\<rparr>) = Inl RuntimeUnavailable"
    by (simp add: sample_module_def sample_core_def)
  have h6: "GetRuntimeVersion_core (coreAPI sample_module) (Bhash \<lparr>Bhash = Some [0x00::byte]\<rparr>) = Inl RuntimeUnavailable"
    by (simp add: sample_module_def sample_core_def)
  from resolution_failure_propagates [OF h1 h2 h3 h4 h5 h6,
      where rng = "range_keys [[0x01], [0x02]]" and resP = "\<lparr>keys = None\<rparr>"
        and resA = "\<lparr>StorageValue = ''0x07''\<rparr>" and resM = "\<lparr>Metadata = ''0x07''\<rparr>"
        and resV = zero_version and sm' = steady_module
        and req' = "\<lparr>Bhash = Some [0xaa], Key = ''0x01''\<rparr>" and resA' = "\<lparr>StorageValue = []\<rparr>"]
  show ?thesis by (simp add: HexToBytes_01)
qed

text \<open>
  C2 as stated fails: block bb is one the resolver cannot map, yet GetRuntimeVersion with
  that block returns nil and fills the response, and the one call GetStorage makes with
  that block is a storage lookup, the resolver not being asked at all.
\<close>

theorem resolver_not_consulted_counterexample:
  "GetStateRootFromBlock_api (storageAPI sample_module) [0xbb] = Inl UnknownBlock
   \<and> GetRuntimeVersion sample_module (Some \<lparr>Bhash = Some [0xbb]\<rparr>) zero_version =
       Return [GetRuntimeVersionCall (Some [0xbb])] None
         \<lparr>SpecName = [0x6e], ImplName = [0x67], AuthoringVersion = 1, SpecVersion = 2,
          ImplVersion = 3, Apis = Some []\<rparr>
   \<and> calls (GetStorage sample_module \<lparr>Bhash = Some [0xbb], Key = ''0x01''\<rparr> \<lparr>StorageValue = []\<rparr>) =
       [GetStorageByBlockHashCall [0xbb] [0x01]]"
  by (simp add: sample_module_def sample_storage_def sample_core_def sample_version_def
        zero_version_def GetRuntimeVersion_def GetStorage_def convertAPIs_def HexToBytes_01)

text \<open>
  What the handlers do with a non-empty value \<open>V\<close>: GetStorageSize stores its length,
  which read as an unsigned 64-bit number is the length itself (a Go slice is shorter
  than \<open>2 ^ 63\<close>), and GetStorageHash stores \<^verbatim>\<open>common.BytesToHash(V).String()\<close>, whatever
  those two functions of lib/common compute.
\<close>
lemma GetStorageSize_present_value:
  assumes "provider_answer sm (Bhash req) (fst (HexToBytes (Key req))) = Inr (Some V)"
    and "V \<noteq> []" and "length V < 2 ^ 63"
  shows "GetStorageSize sm req resS =
           Return [lookup_call (Bhash req) (fst (HexToBytes (Key req)))] None
             \<lparr>StorageEntrySize = of_nat (length V)\<rparr>
       \<and> unat (of_nat (length V) :: 64 word) = length V"
proof -
  have "length V < 2 ^ 64" using assms(3) by simp
  then have u: "unat (of_nat (length V) :: 64 word) = length V"
    by (simp add: unat_of_nat)
  have "GetStorageSize sm req resS =
           Return [lookup_call (Bhash req) (fst (HexToBytes (Key req)))] None
             \<lparr>StorageEntrySize = of_nat (length V)\<rparr>"
    using assms(1,2)
    by (cases "Bhash req") (simp_all add: provider_answer_def lookup_call_def GetStorageSize_def Let_def)
  with u show ?thesis by simp
qed

lemma GetStorageHash_present_value:
  assumes "provider_answer sm (Bhash req) (fst (HexToBytes (Key req))) = Inr (Some V)"
    and "V \<noteq> []"
  shows "GetStorageHash common sm req resH =
           Return [lookup_call (Bhash req) (fst (HexToBytes (Key req)))] None
             \<lparr>StorageHash = Hash_String common (BytesToHash common V)\<rparr>"
  using assms
  by (cases "Bhash req") (simp_all add: provider_answer_def lookup_call_def GetStorageHash_def Let_def)

text \<open>
  C4, as the code has it. When the prefix decodes to no bytes, the snapshot resolves (or
  no block hash is given) and \<^verbatim>\<open>Entries\<close> answers with a map, GetPairs on a fresh
  response returns nil, and the response lists the entries of the map in the order in
  which the range loop visits them, each as the pair of key and value written as
  \<^verbatim>\<open>0x\<close> and lowercase hex. As the loop visits each key once, the list has as many
  entries as the map has keys, and every stored pair occurs in it exactly once. The
  order itself is the loop's, not the store's.
\<close>
theorem GetPairs_all_entries:
  assumes "length (fst (HexToBytes (Prefix req))) < 1"
    and "resolved_root sm (Bhash req) = Inr root"
    and "Entries_api (storageAPI sm) root = Inr pairs"
    and "visits_each_once (rng pairs) pairs"
  shows "\<exists>cs res'. GetPairs rng sm req \<lparr>keys = None\<rparr> = Return cs None res'
       \<and> elems (keys res') =
           map (\<lambda>(k, v). [''0x'' @ hex_EncodeToString k, ''0x'' @ hex_EncodeToString (elems v)])
             (rng pairs)
       \<and> length (elems (keys res')) = card (dom pairs)
       \<and> (\<forall>k v. pairs k = Some v \<longrightarrow>
             count_list (elems (keys res'))
               [''0x'' @ hex_EncodeToString k, ''0x'' @ hex_EncodeToString (elems v)] = 1)"
proof -
  let ?enc = "\<lambda>(k, v). [''0x'' @ hex_EncodeToString k, ''0x'' @ hex_EncodeToString (elems v)]"
  from assms(4) have d: "distinct (map fst (rng pairs))" and m: "map_of (rng pairs) = pairs"
    by (simp_all add: visits_each_once_def)
  obtain cs res' where r: "GetPairs rng sm req \<lparr>keys = None\<rparr> = Return cs None res'"
    and e: "elems (keys res') = map ?enc (rng pairs)"
    using assms(1,2,3)
    by (cases "Bhash req") (simp_all add: GetPairs_def resolved_root_def Let_def range_pairs_elems)
  have "dom pairs = fst ` set (rng pairs)"
    using m by (metis dom_map_of_conv_image_fst)
  then have "card (dom pairs) = length (rng pairs)"
    using d by (metis distinct_card length_map set_map)
  then have l: "length (elems (keys res')) = card (dom pairs)"
    using e by simp
  have c: "count_list (elems (keys res'))
             [''0x'' @ hex_EncodeToString k, ''0x'' @ hex_EncodeToString (elems v)] = 1"
    if "pairs k = Some v" for k v
  proof -
    from m that have "(k, v) \<in> set (rng pairs)"
      by (metis map_of_SomeD)
    with d have "count_list (map ?enc (rng pairs))
        [''0x'' @ hex_EncodeToString k, ''0x'' @ hex_EncodeToString (elems v)] = 1"
      by (rule count_list_one_distinct_keys)
    with e show ?thesis by simp
  qed
  from r e l c show ?thesis by blast
qed

theorem GetPairs_all_entries_witness:
  "\<exists>cs res'. GetPairs (range_keys [[0x02], [0x01]]) sample_module \<lparr>Bhash = Some [0xaa], Prefix = []\<rparr>
               \<lparr>keys = None\<rparr> = Return cs None res'
     \<and> elems (keys res') = [[''0x02'', ''0x''], [''0x01'', ''0x0102030405'']]
     \<and> length (elems (keys res')) = card (dom (map_of sample_entries))
     \<and> count_list (elems (keys res')) [''0x01'', ''0x0102030405''] = 1"
proof -
  have h1: "length (fst (HexToBytes (Prefix \<lparr>Bhash = Some [0xaa::byte], Prefix = []\<rparr>))) < 1"
    by (simp add: HexToBytes_def)
  have h2: "resolved_root sample_module (Bhash \<lparr>Bhash = Some [0xaa::byte], Prefix = []\<rparr>) = Inr (Some [0xbb])"
    by (simp add: resolved_root_def sample_module_def sample_storage_def)
  have h3: "Entries_api (storageAPI sample_module) (Some [0xbb]) = Inr (map_of sample_entries)"
    by (simp add: sample_module_def sample_storage_def)
  have h5: "map_of sample_entries [0x01] = Some (Some [1, 2, 3, 4, 5])"
    by (simp add: sample_entries_def)
  from GetPairs_all_entries [where rng = "range_keys [[0x02], [0x01]]" and pairs = "map_of sample_entries",
      OF h1 h2 h3 sample_backward_visits]
  obtain cs res' where w:
    "GetPairs (range_keys [[0x02], [0x01]]) sample_module \<lparr>Bhash = Some [0xaa], Prefix = []\<rparr>
       \<lparr>keys = None\<rparr> = Return cs None res'"
    "elems (keys res') =
       map (\<lambda>(k, v). [''0x'' @ hex_EncodeToString k, ''0x'' @ hex_EncodeToString (elems v)])
         (range_keys [[0x02], [0x01]] (map_of sample_entries))"
    "length (elems (keys res')) = card (dom (map_of sample_entries))"
    "\<forall>k v. map_of sample_entries k = Some v \<longrightarrow>
       count_list (elems (keys res'))
         [''0x'' @ hex_EncodeToString k, ''0x'' @ hex_EncodeToString (elems v)] = 1"
    by blast
  from w(4) h5 have c: "count_list (elems (keys res'))
      [''0x'' @ hex_EncodeToString [0x01], ''0x'' @ hex_EncodeToString (elems (Some [1, 2, 3, 4, 5]))] = 1"
    by blast
  have e: "elems (keys res') = [[''0x02'', ''0x''], [''0x01'', ''0x0102030405'']]"
    using w(2) unfolding sample_backward by (simp add: sample_entries_def hexdigit_def)
  from c have c': "count_list (elems (keys res')) [''0x01'', ''0x0102030405''] = 1"
    by (simp add: hexdigit_def)
  from w(1) e w(3) c' show ?thesis by blast
qed

text \<open>
  C4 as stated fails in its order: on the same store, two visits of the same map, both
  of each key once, give the two entries in opposite orders.
\<close>
theorem GetPairs_order_not_fixed_counterexample:
  "visits_each_once (range_keys [[0x01], [0x02]] (map_of sample_entries)) (map_of sample_entries)
   \<and> visits_each_once (range_keys [[0x02], [0x01]] (map_of sample_entries)) (map_of sample_entries)
   \<and> GetPairs (range_keys [[0x01], [0x02]]) sample_module \<lparr>Bhash = None, Prefix = []\<rparr> \<lparr>keys = None\<rparr> =
       Return [EntriesCall None] None \<lparr>keys = Some [[''0x01'', ''0x0102030405''], [''0x02'', ''0x'']]\<rparr>
   \<and> GetPairs (range_keys [[0x02], [0x01]]) sample_module \<lparr>Bhash = None, Prefix = []\<rparr> \<lparr>keys = None\<rparr> =
       Return [EntriesCall None] None \<lparr>keys = Some [[''0x02'', ''0x''], [''0x01'', ''0x0102030405'']]\<rparr>"
proof -
  have a: "GetPairs (range_keys [[0x01], [0x02]]) sample_module \<lparr>Bhash = None, Prefix = []\<rparr> \<lparr>keys = None\<rparr> =
       Return [EntriesCall None] None \<lparr>keys = Some [[''0x01'', ''0x0102030405''], [''0x02'', ''0x'']]\<rparr>"
    by (simp add: GetPairs_def HexToBytes_def sample_module_def sample_storage_def sample_forward)
       (simp add: sample_entries_def append_slice_def hexdigit_def)
  have b: "GetPairs (range_keys [[0x02], [0x01]]) sample_module \<lparr>Bhash = None, Prefix = []\<rparr> \<lparr>keys = None\<rparr> =
       Return [EntriesCall None] None \<lparr>keys = Some [[''0x02'', ''0x''], [''0x01'', ''0x0102030405'']]\<rparr>"
    by (simp add: GetPairs_def HexToBytes_def sample_module_def sample_storage_def sample_backward)
       (simp add: sample_entries_def append_slice_def hexdigit_def)
  from a b sample_forward_visits sample_backward_visits show ?thesis by simp
qed




text \<open>
  C6. When the core API answers with a blob, GetMetadata makes that one call, decodes the
  blob, sets Metadata to the hex of the decoded bytes and returns what the decoder
  returned as error: nil when the blob decodes, the decode error when it does not. In
  both cases it returns; the type assertion on the decoded value does not panic, the
  decoder giving a byte slice on every path.
\<close>
theorem GetMetadata_decode:
  assumes "GetMetadata_core (coreAPI sm) (Bhash req) = Inr blob"
  shows "\<exists>d. fst (scale_Decode blob) = ByteSlice d
       \<and> GetMetadata sm req res =
           Return [GetMetadataCall (Bhash req)] (snd (scale_Decode blob))
             (res\<lparr>Metadata := BytesToHex (elems d)\<rparr>)"
proof -
  obtain d where d: "fst (scale_Decode blob) = ByteSlice d"
    using scale_Decode_ByteSlice by blast
  obtain v e where ve: "scale_Decode blob = (v, e)"
    by (cases "scale_Decode blob")
  with d have v: "v = ByteSlice d" by simp
  have "GetMetadata sm req res =
           Return [GetMetadataCall (Bhash req)] (snd (scale_Decode blob))
             (res\<lparr>Metadata := BytesToHex (elems d)\<rparr>)"
    using assms by (simp add: GetMetadata_def ve v)
  with d show ?thesis by blast
qed

theorem GetMetadata_decode_witness:
  "GetMetadata sample_module \<lparr>Bhash = None\<rparr> \<lparr>Metadata = []\<rparr> =
     Return [GetMetadataCall None] None \<lparr>Metadata = ''0xabcd''\<rparr>
   \<and> GetMetadata sample_module \<lparr>Bhash = Some [0xaa]\<rparr> \<lparr>Metadata = []\<rparr> =
     Return [GetMetadataCall (Some [0xaa])] (Some DecodeError) \<lparr>Metadata = ''0x''\<rparr>"
proof -
  have h1: "GetMetadata_core (coreAPI sample_module) (Bhash \<lparr>Bhash = None\<rparr>) = Inr [0x08, 0xab, 0xcd]"
    by (simp add: sample_module_def sample_core_def)
  have h2: "GetMetadata_core (coreAPI sample_module) (Bhash \<lparr>Bhash = Some [0xaa::byte]\<rparr>) = Inr [0x0c, 0x01]"
    by (simp add: sample_module_def sample_core_def)
  from GetMetadata_decode [OF h1, where res = "\<lparr>Metadata = []\<rparr>"]
       GetMetadata_decode [OF h2, where res = "\<lparr>Metadata = []\<rparr>"]
  show ?thesis
    by (auto simp: scale_Decode_sample_ok scale_Decode_sample_short BytesToHex_def hexdigit_def)
qed

text \<open>
  C7, as the code has it. GetRuntimeVersion hands the block hash of the request to the
  core API. Two calls that differ only in the block hash return the same error and the
  same response whenever the core API answers the two block hashes alike.
\<close>
theorem GetRuntimeVersion_same_provider_answer:
  assumes "GetRuntimeVersion_core (coreAPI sm) (Bhash r) = GetRuntimeVersion_core (coreAPI sm) (Bhash r')"
  shows "\<exists>e res'. GetRuntimeVersion sm (Some r) res = Return [GetRuntimeVersionCall (Bhash r)] e res'
                 \<and> GetRuntimeVersion sm (Some r') res = Return [GetRuntimeVersionCall (Bhash r')] e res'"
  using assms
  by (cases "GetRuntimeVersion_core (coreAPI sm) (Bhash r')") (simp_all add: GetRuntimeVersion_def)

theorem GetRuntimeVersion_same_provider_answer_witness:
  "\<exists>e res'. GetRuntimeVersion sample_module (Some \<lparr>Bhash = Some [0xaa]\<rparr>) zero_version =
               Return [GetRuntimeVersionCall (Some [0xaa])] e res'
           \<and> GetRuntimeVersion sample_module (Some \<lparr>Bhash = Some [0xbb]\<rparr>) zero_version =
               Return [GetRuntimeVersionCall (Some [0xbb])] e res'"
proof -
  have h: "GetRuntimeVersion_core (coreAPI sample_module) (Bhash \<lparr>Bhash = Some [0xaa::byte]\<rparr>) =
           GetRuntimeVersion_core (coreAPI sample_module) (Bhash \<lparr>Bhash = Some [0xbb::byte]\<rparr>)"
    by (simp add: sample_module_def sample_core_def)
  from GetRuntimeVersion_same_provider_answer [OF h, where res = zero_version]
  show ?thesis by simp
qed

text \<open>
  C7 as stated fails: with a core API that answers by block, the response for the latest
  state and the response for block aa differ.
\<close>
theorem GetRuntimeVersion_depends_on_block_counterexample:
  "response (GetRuntimeVersion sample_module (Some \<lparr>Bhash = None\<rparr>) zero_version) \<noteq>
   response (GetRuntimeVersion sample_module (Some \<lparr>Bhash = Some [0xaa]\<rparr>) zero_version)"
  by (simp add: GetRuntimeVersion_def sample_module_def sample_core_def sample_version_def
        zero_version_def convertAPIs_def)

text \<open>
  C8, as the code has it. Each of the eight handlers makes no interface call and leaves
  the response object exactly as it was handed in, whatever the request; QueryStorage and
  SubscribeStorage return a nil error, the other six return nothing.
\<close>
theorem unimplemented_handlers_do_nothing:
  "Call sm rq1 rs1 = ([], rs1)
   \<and> GetChildKeys sm rq2 rs2 = ([], rs2)
   \<and> GetChildStorage sm rq3 rs3 = ([], rs3)
   \<and> GetChildStorageHash sm rq4 rs4 = ([], rs4)
   \<and> GetChildStorageSize sm rq5 rs5 = ([], rs5)
   \<and> GetKeys sm rq6 rs6 = ([], rs6)
   \<and> QueryStorage sm rq7 rs7 = Return [] None rs7
   \<and> SubscribeStorage sm rq8 rs8 = Return [] None rs8"
  by (simp add: Call_def GetChildKeys_def GetChildStorage_def GetChildStorageHash_def
        GetChildStorageSize_def GetKeys_def QueryStorage_def SubscribeStorage_def)

text \<open>
  C8 as stated fails: QueryStorage on a zero response returns a nil error and the zero
  response, which is what a successful query with nothing to report looks like.
\<close>
theorem QueryStorage_reports_success_counterexample:
  "err (QueryStorage sample_module sample_query (StorageChangeSetResponse None None)) = None
   \<and> response (QueryStorage sample_module sample_query (StorageChangeSetResponse None None)) =
       StorageChangeSetResponse None None"
  by (simp add: QueryStorage_def)

text \<open>
  C9. SubscribeRuntimeVersion calls GetRuntimeVersion with a nil request, and
  GetRuntimeVersion reads the block hash through that pointer first: the call panics
  before the core API is asked, whereas GetRuntimeVersion with a request that holds no
  block hash asks the core API once and returns the latest version.
\<close>
theorem SubscribeRuntimeVersion_nil_request:
  "SubscribeRuntimeVersion sm req res = Panic []
   \<and> GetRuntimeVersion sample_module (Some \<lparr>Bhash = None\<rparr>) zero_version =
       Return [GetRuntimeVersionCall None] None
         \<lparr>SpecName = [0x6e], ImplName = [0x67], AuthoringVersion = 1, SpecVersion = 2,
          ImplVersion = 3, Apis = Some [(''0xdf6a'', 2), (''0x37'', 1)]\<rparr>"
  by (simp add: SubscribeRuntimeVersion_def GetRuntimeVersion_def sample_module_def
        sample_core_def sample_version_def zero_version_def convertAPIs_def hexdigit_def)

text \<open>
  C10. A key that is not wire hex decodes to the empty key with an error, and the error
  is dropped: GetStorage, GetStorageHash and GetStorageSize make their one lookup for
  the empty key, return the error of that lookup if it has one, and otherwise fill the
  response from its answer. A prefix that is not wire hex sends GetPairs down the branch
  of the empty prefix: it resolves the block if one is given, calls \<^verbatim>\<open>Entries\<close> and
  lists what it returns. In each case the outcome is that of the same request with the
  key \<^verbatim>\<open>0x\<close>, which decodes without error to the empty key.
\<close>
theorem malformed_key_is_empty_key:
  assumes "snd (HexToBytes (Key req)) \<noteq> None" and "snd (HexToBytes (Prefix preq)) \<noteq> None"
  shows "GetStorage sm req resA =
           (case provider_answer sm (Bhash req) [] of
              Inl e \<Rightarrow> Return [lookup_call (Bhash req) []] (Some e) resA
            | Inr item \<Rightarrow>
                Return [lookup_call (Bhash req) []] None
                  (if len item > 0 then resA\<lparr>StorageValue := BytesToHex (elems item)\<rparr>
                   else \<lparr>StorageValue = []\<rparr>))
       \<and> GetStorageHash common sm req resH =
           (case provider_answer sm (Bhash req) [] of
              Inl e \<Rightarrow> Return [lookup_call (Bhash req) []] (Some e) resH
            | Inr item \<Rightarrow>
                Return [lookup_call (Bhash req) []] None
                  (if len item > 0
                   then resH\<lparr>StorageHash := Hash_String common (BytesToHash common (elems item))\<rparr>
                   else \<lparr>StorageHash = []\<rparr>))
       \<and> GetStorageSize sm req resS =
           (case provider_answer sm (Bhash req) [] of
              Inl e \<Rightarrow> Return [lookup_call (Bhash req) []] (Some e) resS
            | Inr item \<Rightarrow>
                Return [lookup_call (Bhash req) []] None
                  (if len item > 0 then \<lparr>StorageEntrySize = of_nat (len item)\<rparr>
                   else \<lparr>StorageEntrySize = 0\<rparr>))
       \<and> GetPairs rng sm preq resP =
           (case resolved_root sm (Bhash preq) of
              Inl e \<Rightarrow>
                Return (case Bhash preq of Some bh \<Rightarrow> [GetStateRootFromBlockCall bh] | None \<Rightarrow> [])
                  (Some e) resP
            | Inr root \<Rightarrow>
                (case Entries_api (storageAPI sm) root of
                   Inl e \<Rightarrow>
                     Return ((case Bhash preq of Some bh \<Rightarrow> [GetStateRootFromBlockCall bh] | None \<Rightarrow> [])
                               @ [EntriesCall root]) (Some e) resP
                 | Inr pairs \<Rightarrow>
                     Return ((case Bhash preq of Some bh \<Rightarrow> [GetStateRootFromBlockCall bh] | None \<Rightarrow> [])
                               @ [EntriesCall root]) None (range_pairs (rng pairs) resP)))
       \<and> GetStorage sm req resA = GetStorage sm (req\<lparr>Key := ''0x''\<rparr>) resA
       \<and> GetStorageHash common sm req resH = GetStorageHash common sm (req\<lparr>Key := ''0x''\<rparr>) resH
       \<and> GetStorageSize sm req resS = GetStorageSize sm (req\<lparr>Key := ''0x''\<rparr>) resS
       \<and> GetPairs rng sm preq resP = GetPairs rng sm (preq\<lparr>Prefix := ''0x''\<rparr>) resP"
proof -
  have k: "fst (HexToBytes (Key req)) = []" using assms(1) by (rule HexToBytes_error_empty)
  have p: "fst (HexToBytes (Prefix preq)) = []" using assms(2) by (rule HexToBytes_error_empty)
  have a: "GetStorage sm req resA =
           (case provider_answer sm (Bhash req) [] of
              Inl e \<Rightarrow> Return [lookup_call (Bhash req) []] (Some e) resA
            | Inr item \<Rightarrow>
                Return [lookup_call (Bhash req) []] None
                  (if len item > 0 then resA\<lparr>StorageValue := BytesToHex (elems item)\<rparr>
                   else \<lparr>StorageValue = []\<rparr>))"
    by (cases "Bhash req") (simp_all add: GetStorage_def k provider_answer_def lookup_call_def split: sum.splits)
  have b: "GetStorageHash common sm req resH =
           (case provider_answer sm (Bhash req) [] of
              Inl e \<Rightarrow> Return [lookup_call (Bhash req) []] (Some e) resH
            | Inr item \<Rightarrow>
                Return [lookup_call (Bhash req) []] None
                  (if len item > 0
                   then resH\<lparr>StorageHash := Hash_String common (BytesToHash common (elems item))\<rparr>
                   else \<lparr>StorageHash = []\<rparr>))"
    by (cases "Bhash req") (simp_all add: GetStorageHash_def k provider_answer_def lookup_call_def split: sum.splits)
  have c: "GetStorageSize sm req resS =
           (case provider_answer sm (Bhash req) [] of
              Inl e \<Rightarrow> Return [lookup_call (Bhash req) []] (Some e) resS
            | Inr item \<Rightarrow>
                Return [lookup_call (Bhash req) []] None
                  (if len item > 0 then \<lparr>StorageEntrySize = of_nat (len item)\<rparr>
                   else \<lparr>StorageEntrySize = 0\<rparr>))"
    by (cases "Bhash req") (simp_all add: GetStorageSize_def k provider_answer_def lookup_call_def split: sum.splits)
  have d: "GetPairs rng sm preq resP =
           (case resolved_root sm (Bhash preq) of
              Inl e \<Rightarrow>
                Return (case Bhash preq of Some bh \<Rightarrow> [GetStateRootFromBlockCall bh] | None \<Rightarrow> [])
                  (Some e) resP
            | Inr root \<Rightarrow>
                (case Entries_api (storageAPI sm) root of
                   Inl e \<Rightarrow>
                     Return ((case Bhash preq of Some bh \<Rightarrow> [GetStateRootFromBlockCall bh] | None \<Rightarrow> [])
                               @ [EntriesCall root]) (Some e) resP
                 | Inr pairs \<Rightarrow>
                     Return ((case Bhash preq of Some bh \<Rightarrow> [GetStateRootFromBlockCall bh] | None \<Rightarrow> [])
                               @ [EntriesCall root]) None (range_pairs (rng pairs) resP)))"
    by (cases "Bhash preq") (simp_all add: GetPairs_def p resolved_root_def split: sum.splits)
  have e: "GetStorage sm req resA = GetStorage sm (req\<lparr>Key := ''0x''\<rparr>) resA
       \<and> GetStorageHash common sm req resH = GetStorageHash common sm (req\<lparr>Key := ''0x''\<rparr>) resH
       \<and> GetStorageSize sm req resS = GetStorageSize sm (req\<lparr>Key := ''0x''\<rparr>) resS
       \<and> GetPairs rng sm preq resP = GetPairs rng sm (preq\<lparr>Prefix := ''0x''\<rparr>) resP"
    by (simp add: GetStorage_def GetStorageHash_def GetStorageSize_def GetPairs_def k p HexToBytes_0x)
  from a b c d e show ?thesis by blast
qed

theorem malformed_key_is_empty_key_witness:
  "snd (HexToBytes ''0xzz'') = Some InvalidHex
   \<and> GetStorage sample_module \<lparr>Bhash = None, Key = ''0xzz''\<rparr> \<lparr>StorageValue = ''0x07''\<rparr> =
       Return [GetStorageCall None []] None \<lparr>StorageValue = []\<rparr>
   \<and> GetStorageHash sample_common sample_module \<lparr>Bhash = None, Key = ''0xzz''\<rparr> \<lparr>StorageHash = ''0x07''\<rparr> =
       Return [GetStorageCall None []] None \<lparr>StorageHash = []\<rparr>
   \<and> GetStorageSize sample_module \<lparr>Bhash = None, Key = ''0xzz''\<rparr> \<lparr>StorageEntrySize = 7\<rparr> =
       Return [GetStorageCall None []] None \<lparr>StorageEntrySize = 0\<rparr>
   \<and> GetPairs (range_keys [[0x01], [0x02]]) sample_module \<lparr>Bhash = None, Prefix = ''01''\<rparr> \<lparr>keys = None\<rparr> =
       Return [EntriesCall None] None \<lparr>keys = Some [[''0x01'', ''0x0102030405''], [''0x02'', ''0x'']]\<rparr>"
proof -
  have h1: "snd (HexToBytes (Key \<lparr>Bhash = None, Key = ''0xzz''\<rparr>)) \<noteq> None"
    by (simp add: HexToBytes_def)
  have h2: "snd (HexToBytes (Prefix \<lparr>Bhash = None, Prefix = ''01''\<rparr>)) \<noteq> None"
    by (simp add: HexToBytes_def)
  have z: "snd (HexToBytes ''0xzz'') = Some InvalidHex"
    by (simp add: HexToBytes_def)
  have pa: "provider_answer sample_module None [] = Inr None"
    by (simp add: provider_answer_def sample_module_def sample_storage_def)
  have rr: "resolved_root sample_module None = Inr None"
    by (simp add: resolved_root_def)
  have en: "Entries_api (storageAPI sample_module) None = Inr (map_of sample_entries)"
    by (simp add: sample_module_def sample_storage_def)
  have rp: "range_pairs sample_entries \<lparr>keys = None\<rparr> =
              \<lparr>keys = Some [[''0x01'', ''0x0102030405''], [''0x02'', ''0x'']]\<rparr>"
    by (simp add: sample_entries_def append_slice_def hexdigit_def)
  from malformed_key_is_empty_key [OF h1 h2, where sm = sample_module
      and resA = "\<lparr>StorageValue = ''0x07''\<rparr>" and resH = "\<lparr>StorageHash = ''0x07''\<rparr>"
      and resS = "\<lparr>StorageEntrySize = 7\<rparr>" and resP = "\<lparr>keys = None\<rparr>"
      and rng = "range_keys [[0x01], [0x02]]"  and common = sample_common] z
  show ?thesis by (simp add: pa rr en lookup_call_def sample_forward rp)
qed

end
